theory Spec2Isabelle
  imports Main
begin

section \<open>Python values, replies and byte strings\<close>

text \<open>
  The set-command mixin of \<^verbatim>\<open>tredis/sets.py\<close> handles untyped Python values: the raw reply
  of the server (an integer, a byte string, a list, \<^verbatim>\<open>None\<close>) and the values the normalizers
  make from them (booleans, tuples). Byte strings are \<^typ>\<open>string\<close>; a command vector is a
  list of byte strings.
\<close>

datatype pyval =
    PNone
  | PBool bool
  | PInt int
  | PBytes string
  | PList "pyval list"
  | PTuple "pyval list"

datatype py_error = TypeError | ValueError | IndexError

type_synonym command = "string list"

type_synonym normalizer = "pyval \<Rightarrow> py_error + pyval"

subsection \<open>\<^verbatim>\<open>ascii(n).encode('ascii')\<close> for an integer\<close>

definition digit_char :: "nat \<Rightarrow> char" where
  "digit_char d = ''0123456789'' ! d"

fun nat_digits :: "nat \<Rightarrow> string" where
  "nat_digits n = (if n < 10 then [digit_char n] else nat_digits (n div 10) @ [digit_char (n mod 10)])"

declare nat_digits.simps [simp del]

text \<open>\<^verbatim>\<open>ascii\<close> of a Python integer is its \<^verbatim>\<open>repr\<close>: the decimal digits, after a minus
  sign when it is negative.\<close>

definition py_ascii :: "int \<Rightarrow> string" where
  "py_ascii n = (if n < 0 then CHR ''-'' # nat_digits (nat (- n)) else nat_digits (nat n))"

subsection \<open>\<^verbatim>\<open>int(x)\<close>\<close>

definition is_digit :: "char \<Rightarrow> bool" where
  "is_digit c \<longleftrightarrow> c \<in> set ''0123456789''"

definition digit_val :: "char \<Rightarrow> nat" where
  "digit_val c = of_char c - 48"

definition is_space :: "char \<Rightarrow> bool" where
  "is_space c \<longleftrightarrow> c \<in> set [CHR '' '', CHR 0x09, CHR 0x0A, CHR 0x0B, CHR 0x0C, CHR 0x0D]"

definition strip :: "string \<Rightarrow> string" where
  "strip s = rev (dropWhile is_space (rev (dropWhile is_space s)))"

text \<open>The digits of a literal, most significant first; a single underscore may stand between
  two digits (Python 3.6 and later).\<close>

fun digits_value :: "nat \<Rightarrow> string \<Rightarrow> nat option" where
  "digits_value acc [] = Some acc"
| "digits_value acc (c # cs) =
     (if is_digit c then digits_value (acc * 10 + digit_val c) cs
      else if c = CHR ''_'' then
        (case cs of
           [] \<Rightarrow> None
         | d # _ \<Rightarrow> if is_digit d then digits_value acc cs else None)
      else None)"

definition unsigned_value :: "string \<Rightarrow> nat option" where
  "unsigned_value body =
     (case body of
        [] \<Rightarrow> None
      | c # _ \<Rightarrow> if is_digit c then digits_value 0 body else None)"

text \<open>\<^verbatim>\<open>int(b)\<close> for a byte string in base ten: surrounding white space is dropped, one sign
  is allowed, anything else that is not a digit raises \<^verbatim>\<open>ValueError\<close>.\<close>

definition py_int_bytes :: "string \<Rightarrow> py_error + int" where
  "py_int_bytes s =
     (case strip s of
        [] \<Rightarrow> Inl ValueError
      | c # cs \<Rightarrow>
          if c = CHR ''-'' then
            (case unsigned_value cs of None \<Rightarrow> Inl ValueError | Some n \<Rightarrow> Inr (- int n))
          else if c = CHR ''+'' then
            (case unsigned_value cs of None \<Rightarrow> Inl ValueError | Some n \<Rightarrow> Inr (int n))
          else
            (case unsigned_value (c # cs) of None \<Rightarrow> Inl ValueError | Some n \<Rightarrow> Inr (int n)))"

fun py_int :: "pyval \<Rightarrow> py_error + int" where
  "py_int (PInt n) = Inr n"
| "py_int (PBool b) = Inr (if b then 1 else 0)"
| "py_int (PBytes s) = py_int_bytes s"
| "py_int PNone = Inl TypeError"
| "py_int (PList xs) = Inl TypeError"
| "py_int (PTuple xs) = Inl TypeError"

subsection \<open>Indexing, truthiness and comparison with an integer\<close>

text \<open>\<^verbatim>\<open>value[i]\<close> for the indices 0 and 1 the source uses. Indexing a byte string gives
  the byte as an integer (Python 3); \<^verbatim>\<open>None\<close>, integers and booleans are not
  subscriptable.\<close>

fun py_getitem :: "pyval \<Rightarrow> nat \<Rightarrow> py_error + pyval" where
  "py_getitem (PList xs) i = (if i < length xs then Inr (xs ! i) else Inl IndexError)"
| "py_getitem (PTuple xs) i = (if i < length xs then Inr (xs ! i) else Inl IndexError)"
| "py_getitem (PBytes s) i = (if i < length s then Inr (PInt (of_char (s ! i))) else Inl IndexError)"
| "py_getitem PNone i = Inl TypeError"
| "py_getitem (PBool b) i = Inl TypeError"
| "py_getitem (PInt n) i = Inl TypeError"

text \<open>\<^verbatim>\<open>value == n\<close> for an integer \<^verbatim>\<open>n\<close>: a boolean compares as 0 or 1, a value of any
  other type is unequal.\<close>

fun py_eq_int :: "pyval \<Rightarrow> int \<Rightarrow> bool" where
  "py_eq_int (PInt m) n = (m = n)"
| "py_eq_int (PBool b) n = ((if b then 1 else 0) = n)"
| "py_eq_int PNone n = False"
| "py_eq_int (PBytes s) n = False"
| "py_eq_int (PList xs) n = False"
| "py_eq_int (PTuple xs) n = False"

text \<open>The optional arguments \<^verbatim>\<open>count\<close> and \<^verbatim>\<open>pattern\<close> default to \<^verbatim>\<open>None\<close>; the source
  tests them with \<^verbatim>\<open>if count:\<close> and \<^verbatim>\<open>if pattern:\<close>, which is false for \<^verbatim>\<open>None\<close>, for
  the integer 0 and for the empty string.\<close>

definition truthy_int :: "int option \<Rightarrow> bool" where
  "truthy_int count = (case count of None \<Rightarrow> False | Some n \<Rightarrow> n \<noteq> 0)"

definition truthy_bytes :: "string option \<Rightarrow> bool" where
  "truthy_bytes pattern = (case pattern of None \<Rightarrow> False | Some p \<Rightarrow> p \<noteq> [])"

section \<open>The client: mode flag, pipeline accumulator and executor\<close>

text \<open>
  The executor hands its callback a future that holds either an exception or the raw reply;
  \<^verbatim>\<open>response.exception()\<close> is \<^verbatim>\<open>None\<close> in the second case. An exception object comes
  with its truth value \<^verbatim>\<open>bool(exc)\<close>, which is False only for an object of a class that
  defines \<^verbatim>\<open>__bool__\<close> or \<^verbatim>\<open>__len__\<close> so.
\<close>

datatype 'e response = Exception 'e bool | Result pyval

text \<open>The caller's \<^verbatim>\<open>TracebackFuture\<close>: not yet set, failed by \<^verbatim>\<open>set_exception\<close>, or
  resolved by \<^verbatim>\<open>set_result\<close>.\<close>

datatype 'e future_state = Unset | Set_exception 'e | Set_result pyval

text \<open>What leaves a continuation instead of a return: an error the normalizer raised, or
  the executor's exception, raised again by \<^verbatim>\<open>response.result()\<close>.\<close>

datatype 'e raised = Raised py_error | Reraised 'e

text \<open>What one run of a continuation does: the state it leaves the caller's future in, the
  values it called the normalizer with, and what was raised out of it, if anything.\<close>

record 'e outcome =
  future :: "'e future_state"
  normalized :: "pyval list"
  escaped :: "'e raised option"

type_synonym 'e callback = "'e response \<Rightarrow> 'e outcome"

text \<open>The value a set operation returns: what \<^verbatim>\<open>_pipeline_add\<close> returned, or a future
  together with the continuation that settles it when the executor's result arrives.\<close>

datatype 'e returned = Placeholder | Future "'e callback"

record 'e client =
  pipeline :: bool
  pipeline_commands :: "(command \<times> normalizer option) list"
  executed :: "(command \<times> 'e callback option) list"

text \<open>Modelled from the spec: \<^verbatim>\<open>_pipeline_add\<close> is defined in the client class, outside
  \<^verbatim>\<open>sets.py\<close>. It "queues one (vector, normalizer) pair", preserving submission order, and
  "returns immediately without resolving a result".\<close>

definition pipeline_add :: "'e client \<Rightarrow> command \<Rightarrow> normalizer option \<Rightarrow> 'e returned \<times> 'e client" where
  "pipeline_add st command callback =
     (Placeholder, st\<lparr>pipeline_commands := pipeline_commands st @ [(command, callback)]\<rparr>)"

text \<open>Modelled from the spec: the future of \<^verbatim>\<open>_execute\<close> called without a callback
  "resolves once with either a raw reply or a failure".\<close>

definition raw_reply :: "'e callback" where
  "raw_reply response =
     (case response of
        Exception exc truth \<Rightarrow> \<lparr>future = Set_exception exc, normalized = [], escaped = None\<rparr>
      | Result v \<Rightarrow> \<lparr>future = Set_result v, normalized = [], escaped = None\<rparr>)"

text \<open>Modelled from the spec: \<^verbatim>\<open>_execute\<close> is defined in the client class, outside
  \<^verbatim>\<open>sets.py\<close>. It "submits one command"; a callback, when given, is run on the executor's
  result.\<close>

definition execute :: "'e client \<Rightarrow> command \<Rightarrow> 'e callback option \<Rightarrow> 'e returned \<times> 'e client" where
  "execute st command callback =
     (Future raw_reply, st\<lparr>executed := executed st @ [(command, callback)]\<rparr>)"

text \<open>The continuation \<^verbatim>\<open>on_response\<close> that \<^verbatim>\<open>sadd\<close>, \<^verbatim>\<open>srem\<close> and \<^verbatim>\<open>sscan\<close> each define,
  with the same body; the normalizer it calls is the variable of the enclosing call.
  \<^verbatim>\<open>if exc:\<close> tests the truth value of the exception object: for a false one the \<^verbatim>\<open>else\<close>
  branch runs, where \<^verbatim>\<open>response.result()\<close> raises the exception again before the normalizer
  is called. When the normalizer raises, \<^verbatim>\<open>set_result\<close> is not reached and the error leaves
  the continuation.\<close>

definition on_response :: "normalizer \<Rightarrow> 'e callback" where
  "on_response normalizer response =
     (case response of
        Exception exc truth \<Rightarrow>
          if truth then \<lparr>future = Set_exception exc, normalized = [], escaped = None\<rparr>
          else \<lparr>future = Unset, normalized = [], escaped = Some (Reraised exc)\<rparr>
      | Result v \<Rightarrow>
          (case normalizer v of
             Inl err \<Rightarrow> \<lparr>future = Unset, normalized = [v], escaped = Some (Raised err)\<rparr>
           | Inr r \<Rightarrow> \<lparr>future = Set_result r, normalized = [v], escaped = None\<rparr>))"

text \<open>Modelled from the spec: the normalizer of \<^verbatim>\<open>_execute_and_eval_int_resp\<close>, which is
  defined outside \<^verbatim>\<open>sets.py\<close>. The reply is "boolean-coded", "0\<rightarrow>false, 1\<rightarrow>true"; the spec
  says nothing about other replies, which are mapped to false here.\<close>

definition eval_int_resp :: normalizer where
  "eval_int_resp value = Inr (PBool (py_eq_int value 1))"

text \<open>Modelled from the spec: \<^verbatim>\<open>_execute_and_eval_int_resp\<close> is defined in the client class,
  outside \<^verbatim>\<open>sets.py\<close>. In pipeline mode "the (vector, normalizer) pair is registered with the
  pipeline accumulator"; in direct mode the call "submits it to the executor, and wires a
  one-shot continuation that applies the normalizer".\<close>

definition execute_and_eval_int_resp :: "'e client \<Rightarrow> command \<Rightarrow> 'e returned \<times> 'e client" where
  "execute_and_eval_int_resp st command =
     (if pipeline st then pipeline_add st command (Some eval_int_resp)
      else (Future (on_response eval_int_resp),
            snd (execute st command (Some (on_response eval_int_resp)))))"

section \<open>The set commands\<close>

text \<open>Each operation builds its command vector, then tests \<^verbatim>\<open>self._pipeline\<close>. \<^verbatim>\<open>srem\<close> and
  \<^verbatim>\<open>sscan\<close> create their future before that test and \<^verbatim>\<open>sadd\<close> after it; a future that is
  created and not returned has no effect.\<close>

definition sadd_eval_response :: "string list \<Rightarrow> normalizer" where
  "sadd_eval_response members value =
     (if py_eq_int value (int (length members)) then Inr (PBool True) else Inr value)"

definition sadd :: "'e client \<Rightarrow> string \<Rightarrow> string list \<Rightarrow> 'e returned \<times> 'e client" where
  "sadd st key members =
     (let command = [''SADD'', key] @ members in
      if pipeline st then pipeline_add st command (Some (sadd_eval_response members))
      else (Future (on_response (sadd_eval_response members)),
            snd (execute st command (Some (on_response (sadd_eval_response members))))))"

definition scard :: "'e client \<Rightarrow> string \<Rightarrow> 'e returned \<times> 'e client" where
  "scard st key =
     (let command = [''SCARD'', key] in
      if pipeline st then pipeline_add st command None
      else execute st command None)"

definition sdiff :: "'e client \<Rightarrow> string list \<Rightarrow> 'e returned \<times> 'e client" where
  "sdiff st keys =
     (let command = [''SDIFF''] @ keys in
      if pipeline st then pipeline_add st command None
      else execute st command None)"

definition sdiffstore :: "'e client \<Rightarrow> string \<Rightarrow> string list \<Rightarrow> 'e returned \<times> 'e client" where
  "sdiffstore st destination keys =
     (let command = [''SDIFFSTORE'', destination] @ keys in
      if pipeline st then pipeline_add st command None
      else execute st command None)"

definition sinter :: "'e client \<Rightarrow> string list \<Rightarrow> 'e returned \<times> 'e client" where
  "sinter st keys =
     (let command = [''SINTER''] @ keys in
      if pipeline st then pipeline_add st command None
      else execute st command None)"

definition sinterstore :: "'e client \<Rightarrow> string \<Rightarrow> string list \<Rightarrow> 'e returned \<times> 'e client" where
  "sinterstore st destination keys =
     (let command = [''SINTERSTORE'', destination] @ keys in
      if pipeline st then pipeline_add st command None
      else execute st command None)"

definition sismember :: "'e client \<Rightarrow> string \<Rightarrow> string \<Rightarrow> 'e returned \<times> 'e client" where
  "sismember st key member =
     (let command = [''SISMEMBER'', key, member] in
      if pipeline st then pipeline_add st command None
      else execute st command None)"

definition smembers :: "'e client \<Rightarrow> string \<Rightarrow> 'e returned \<times> 'e client" where
  "smembers st key =
     (let command = [''SMEMBERS'', key] in
      if pipeline st then pipeline_add st command None
      else execute st command None)"

definition smove :: "'e client \<Rightarrow> string \<Rightarrow> string \<Rightarrow> string \<Rightarrow> 'e returned \<times> 'e client" where
  "smove st source destination member =
     execute_and_eval_int_resp st [''SMOVE'', source, destination, member]"

definition spop_command :: "string \<Rightarrow> int option \<Rightarrow> command" where
  "spop_command key count =
     (let command = [''SPOP'', key] in
      if truthy_int count then command @ [py_ascii (the count)] else command)"

definition spop :: "'e client \<Rightarrow> string \<Rightarrow> int option \<Rightarrow> 'e returned \<times> 'e client" where
  "spop st key count =
     (let command = spop_command key count in
      if pipeline st then pipeline_add st command None
      else execute st command None)"

definition srandmember_command :: "string \<Rightarrow> int option \<Rightarrow> command" where
  "srandmember_command key count =
     (let command = [''SRANDMEMBER'', key] in
      if truthy_int count then command @ [py_ascii (the count)] else command)"

definition srandmember :: "'e client \<Rightarrow> string \<Rightarrow> int option \<Rightarrow> 'e returned \<times> 'e client" where
  "srandmember st key count =
     (let command = srandmember_command key count in
      if pipeline st then pipeline_add st command None
      else execute st command None)"

definition srem_eval_response :: "string list \<Rightarrow> normalizer" where
  "srem_eval_response members value =
     (if py_eq_int value (int (length members)) then Inr (PBool True) else Inr value)"

definition srem :: "'e client \<Rightarrow> string \<Rightarrow> string list \<Rightarrow> 'e returned \<times> 'e client" where
  "srem st key members =
     (let command = [''SREM'', key] @ members in
      if pipeline st then pipeline_add st command (Some (srem_eval_response members))
      else (Future (on_response (srem_eval_response members)),
            snd (execute st command (Some (on_response (srem_eval_response members))))))"

text \<open>\<^verbatim>\<open>return int(value[0]), value[1]\<close>: the three steps run in this order, and the first
  one that raises ends the call.\<close>

definition format_response :: normalizer where
  "format_response value =
     (case py_getitem value 0 of
        Inl err \<Rightarrow> Inl err
      | Inr c \<Rightarrow>
          (case py_int c of
             Inl err \<Rightarrow> Inl err
           | Inr n \<Rightarrow>
               (case py_getitem value 1 of
                  Inl err \<Rightarrow> Inl err
                | Inr members \<Rightarrow> Inr (PTuple [PInt n, members]))))"

definition sscan_command :: "string \<Rightarrow> int \<Rightarrow> string option \<Rightarrow> int option \<Rightarrow> command" where
  "sscan_command key cursor pattern count =
     (let command = [''SSCAN'', key, py_ascii cursor];
          command = (if truthy_bytes pattern then command @ [''MATCH'', the pattern] else command);
          command = (if truthy_int count then command @ [''COUNT'', py_ascii (the count)] else command)
      in command)"


definition sunion :: "'e client \<Rightarrow> string list \<Rightarrow> 'e returned \<times> 'e client" where
  "sunion st keys =
     (let command = [''SUNION''] @ keys in
      if pipeline st then pipeline_add st command None
      else execute st command None)"

definition sunionstore :: "'e client \<Rightarrow> string \<Rightarrow> string list \<Rightarrow> 'e returned \<times> 'e client" where
  "sunionstore st destination keys =
     (let command = [''SUNIONSTORE'', destination] @ keys in
      if pipeline st then pipeline_add st command None
      else execute st command None)"

text \<open>The result a caller sees once the executor's result has arrived: the continuation of
  the returned future, run on that result. A placeholder is never settled by the call.\<close>

definition settle :: "'e returned \<Rightarrow> 'e response \<Rightarrow> 'e outcome" where
  "settle r response =
     (case r of
        Placeholder \<Rightarrow> \<lparr>future = Unset, normalized = [], escaped = None\<rparr>
      | Future k \<Rightarrow> k response)"


section \<open>Decimal digits\<close>

lemma digit_char_cases:
  assumes "d < 10"
  shows "d = 0 \<or> d = 1 \<or> d = 2 \<or> d = 3 \<or> d = 4 \<or> d = 5 \<or> d = 6 \<or> d = 7 \<or> d = 8 \<or> d = (9::nat)"
  using assms by arith

lemma digit_char_is_digit: "d < 10 \<Longrightarrow> is_digit (digit_char d)"
  using digit_char_cases [of d] by (auto simp: is_digit_def digit_char_def)

lemma digit_val_digit_char: "d < 10 \<Longrightarrow> digit_val (digit_char d) = d"
  using digit_char_cases [of d] by (auto simp: digit_val_def digit_char_def)

lemma is_digit_not_space: "is_digit c \<Longrightarrow> \<not> is_space c"
  by (auto simp: is_digit_def is_space_def)

lemma is_digit_not_sign: "is_digit c \<Longrightarrow> c \<noteq> CHR ''-'' \<and> c \<noteq> CHR ''+'' \<and> c \<noteq> CHR ''_''"
  by (auto simp: is_digit_def)

lemma nat_digits_nonempty: "nat_digits n \<noteq> []"
  by (subst nat_digits.simps) simp

lemma nat_digits_all_digits: "c \<in> set (nat_digits n) \<Longrightarrow> is_digit c"
proof (induction n arbitrary: c rule: nat_digits.induct)
  case (1 n)
  show ?case
  proof (cases "n < 10")
    case True
    with "1.prems" show ?thesis
      by (subst (asm) nat_digits.simps) (simp add: digit_char_is_digit)
  next
    case False
    with "1.prems" have "c \<in> set (nat_digits (n div 10)) \<or> c = digit_char (n mod 10)"
      by (subst (asm) nat_digits.simps) auto
    with False "1.IH" show ?thesis
      by (auto simp: digit_char_is_digit)
  qed
qed

lemma digits_value_foldl:
  "\<forall>c\<in>set ds. is_digit c \<Longrightarrow>
   digits_value acc ds = Some (foldl (\<lambda>a c. a * 10 + digit_val c) acc ds)"
  by (induction ds arbitrary: acc) simp_all

lemma foldl_nat_digits: "foldl (\<lambda>a c. a * 10 + digit_val c) 0 (nat_digits n) = n"
proof (induction n rule: nat_digits.induct)
  case (1 n)
  show ?case
  proof (cases "n < 10")
    case True
    then show ?thesis
      by (subst nat_digits.simps) (simp add: digit_val_digit_char)
  next
    case False
    with "1.IH" show ?thesis
      by (subst nat_digits.simps) (simp add: digit_val_digit_char)
  qed
qed

lemma foldl_positional:
  "foldl (\<lambda>a c. a * 10 + digit_val c) acc ds =
   acc * 10 ^ length ds + (\<Sum>i<length ds. digit_val (ds ! i) * 10 ^ (length ds - Suc i))"
proof (induction ds arbitrary: acc)
  case Nil
  show ?case by simp
next
  case (Cons c cs)
  have "(\<Sum>i<length (c # cs). digit_val ((c # cs) ! i) * 10 ^ (length (c # cs) - Suc i)) =
        digit_val c * 10 ^ length cs + (\<Sum>i<length cs. digit_val (cs ! i) * 10 ^ (length cs - Suc i))"
    by (simp only: list.size add_Suc_right add_0_right sum.lessThan_Suc_shift nth_Cons_0 nth_Cons_Suc
          diff_Suc_Suc diff_zero)
  moreover have "foldl (\<lambda>a c. a * 10 + digit_val c) acc (c # cs) =
        (acc * 10 + digit_val c) * 10 ^ length cs
        + (\<Sum>i<length cs. digit_val (cs ! i) * 10 ^ (length cs - Suc i))"
    by (simp add: Cons.IH)
  ultimately show ?case
    by (simp add: algebra_simps)
qed

lemma strip_id:
  assumes "s \<noteq> []" "\<not> is_space (hd s)" "\<not> is_space (last s)"
  shows "strip s = s"
proof -
  from assms have "dropWhile is_space s = s"
    by (cases s) simp_all
  moreover from assms have "dropWhile is_space (rev s) = rev s"
    by (cases "rev s") (simp_all add: hd_rev)
  ultimately show ?thesis by (simp add: strip_def)
qed

lemma unsigned_value_digits:
  assumes "ds \<noteq> []" "\<forall>c\<in>set ds. is_digit c"
  shows "unsigned_value ds = Some (foldl (\<lambda>a c. a * 10 + digit_val c) 0 ds)"
  using assms by (cases ds) (simp_all add: unsigned_value_def digits_value_foldl)

lemma py_int_bytes_digits:
  assumes "ds \<noteq> []" "\<forall>c\<in>set ds. is_digit c"
  shows "py_int_bytes ds = Inr (int (foldl (\<lambda>a c. a * 10 + digit_val c) 0 ds))"
proof -
  from assms have "strip ds = ds"
    by (intro strip_id) (auto simp: is_digit_not_space)
  moreover obtain c cs where ds: "ds = c # cs" using assms(1) by (cases ds) auto
  moreover have "is_digit c" using assms(2) ds by simp
  ultimately show ?thesis
    using unsigned_value_digits [OF assms] is_digit_not_sign [of c]
    by (simp add: py_int_bytes_def)
qed

lemma py_int_bytes_py_ascii: "py_int_bytes (py_ascii n) = Inr n"
proof (cases "n < 0")
  case False
  then show ?thesis
    using py_int_bytes_digits [of "nat_digits (nat n)"]
    by (simp add: py_ascii_def nat_digits_nonempty nat_digits_all_digits foldl_nat_digits)
next
  case True
  let ?ds = "nat_digits (nat (- n))"
  have "strip (CHR ''-'' # ?ds) = CHR ''-'' # ?ds"
  proof (rule strip_id)
    have "is_digit (last ?ds)"
      using last_in_set [OF nat_digits_nonempty] by (rule nat_digits_all_digits)
    then show "\<not> is_space (last (CHR ''-'' # ?ds))"
      by (simp add: nat_digits_nonempty is_digit_not_space)
  qed (simp_all add: is_space_def)
  moreover have "unsigned_value ?ds = Some (nat (- n))"
    by (simp add: unsigned_value_digits nat_digits_nonempty nat_digits_all_digits foldl_nat_digits)
  ultimately show ?thesis using True
    by (simp add: py_ascii_def py_int_bytes_def)
qed


section \<open>Normalizers of SADD and SREM\<close>

text \<open>C1: for a tuple of N requested members, the normalizers of \<^verbatim>\<open>sadd\<close> and \<^verbatim>\<open>srem\<close> map the
  integer reply N to the boolean True, and every integer reply M different from N to the
  integer M itself.\<close>

theorem sadd_srem_eval_response:
  "(m = int (length members) \<longrightarrow>
      sadd_eval_response members (PInt m) = Inr (PBool True) \<and>
      srem_eval_response members (PInt m) = Inr (PBool True)) \<and>
   (m \<noteq> int (length members) \<longrightarrow>
      sadd_eval_response members (PInt m) = Inr (PInt m) \<and>
      srem_eval_response members (PInt m) = Inr (PInt m))"
  by (simp add: sadd_eval_response_def srem_eval_response_def)

theorem sadd_srem_eval_response_witness:
  "sadd_eval_response [''a'', ''b''] (PInt 2) = Inr (PBool True) \<and>
   srem_eval_response [''a'', ''b''] (PInt 2) = Inr (PBool True) \<and>
   sadd_eval_response [''a'', ''b''] (PInt 1) = Inr (PInt 1) \<and>
   srem_eval_response [''a'', ''b''] (PInt 1) = Inr (PInt 1)"
  using sadd_srem_eval_response [of 2 "[''a'', ''b'']"]
        sadd_srem_eval_response [of 1 "[''a'', ''b'']"]
  by simp

section \<open>Command vectors of the commands with optional arguments\<close>

text \<open>C10: \<^verbatim>\<open>spop\<close> and \<^verbatim>\<open>srandmember\<close> called with \<^verbatim>\<open>count=0\<close>, and \<^verbatim>\<open>sscan\<close> called with
  \<^verbatim>\<open>count=0\<close> or with an empty pattern, build the command vector of the same call without
  that argument.\<close>

theorem zero_count_empty_pattern_as_omitted:
  "spop_command key (Some 0) = spop_command key None \<and>
   srandmember_command key (Some 0) = srandmember_command key None \<and>
   sscan_command key cursor pattern (Some 0) = sscan_command key cursor pattern None \<and>
   sscan_command key cursor (Some []) count = sscan_command key cursor None count"
  by (simp add: spop_command_def srandmember_command_def sscan_command_def
        truthy_int_def truthy_bytes_def)

text \<open>C5, as the claim states it: the COUNT pair would be appended whenever a count is
  supplied. A supplied count of 0 is not appended.\<close>

theorem sscan_count_zero_counterexample:
  "sscan_command ''k'' 0 None (Some 0) = [''SSCAN'', ''k'', ''0''] \<and>
   sscan_command ''k'' 0 None (Some 0) \<noteq> [''SSCAN'', ''k'', ''0'', ''COUNT'', ''0'']"
  by (simp add: sscan_command_def truthy_int_def truthy_bytes_def py_ascii_def nat_digits.simps
        digit_char_def)

text \<open>C5, amended: the command vector of \<^verbatim>\<open>sscan\<close> is \<^verbatim>\<open>SSCAN\<close>, the key and the cursor in
  base ten, then \<^verbatim>\<open>MATCH\<close> and the pattern exactly when a non-empty pattern is supplied, then
  \<^verbatim>\<open>COUNT\<close> and the count in base ten exactly when a non-zero count is supplied. The
  base-ten text of an integer is the one that \<^verbatim>\<open>int\<close> reads back as that integer.\<close>

theorem sscan_command_vector:
  "sscan_command key cursor pattern count =
     [''SSCAN'', key, py_ascii cursor]
     @ (if pattern \<noteq> None \<and> the pattern \<noteq> [] then [''MATCH'', the pattern] else [])
     @ (if count \<noteq> None \<and> the count \<noteq> 0 then [''COUNT'', py_ascii (the count)] else [])
   \<and> py_int_bytes (py_ascii cursor) = Inr cursor
   \<and> (count \<noteq> None \<longrightarrow> py_int_bytes (py_ascii (the count)) = Inr (the count))"
  by (auto simp: sscan_command_def truthy_int_def truthy_bytes_def py_int_bytes_py_ascii
        split: option.splits)

theorem sscan_command_vector_witness:
  "sscan_command ''k'' 0 (Some ''a*'') (Some 10) = [''SSCAN'', ''k'', ''0'', ''MATCH'', ''a*'', ''COUNT'', ''10'']
   \<and> sscan_command ''k'' 17 None None = [''SSCAN'', ''k'', ''17'']
   \<and> py_int_bytes (py_ascii 10) = Inr 10"
  using sscan_command_vector [of "''k''" 0 "Some ''a*''" "Some 10"]
        sscan_command_vector [of "''k''" 17 None None]
  by (simp add: py_ascii_def nat_digits.simps digit_char_def)

section \<open>The normalizer of SSCAN\<close>

text \<open>C6: for a raw reply that is a pair of a cursor in base-ten ASCII digits and a member
  list, the normalizer of \<^verbatim>\<open>sscan\<close> returns the pair of the cursor's value, read by position,
  and the member list unchanged. Every non-negative integer written in base ten is read back
  as itself, so in particular every cursor up to \<open>2\<^sup>6\<^sup>4 - 1\<close>.\<close>

theorem sscan_format_response:
  "(ds \<noteq> [] \<and> (\<forall>c\<in>set ds. is_digit c) \<longrightarrow>
      format_response (PList [PBytes ds, PList members]) =
        Inr (PTuple [PInt (int (\<Sum>i<length ds. digit_val (ds ! i) * 10 ^ (length ds - Suc i))),
                     PList members])) \<and>
   (0 \<le> n \<and> n \<le> 2 ^ 64 - 1 \<longrightarrow>
      format_response (PList [PBytes (py_ascii n), PList members]) =
        Inr (PTuple [PInt n, PList members]))"
proof (intro conjI impI)
  assume "ds \<noteq> [] \<and> (\<forall>c\<in>set ds. is_digit c)"
  then have "py_int_bytes ds = Inr (int (foldl (\<lambda>a c. a * 10 + digit_val c) 0 ds))"
    by (simp add: py_int_bytes_digits)
  then show "format_response (PList [PBytes ds, PList members]) =
        Inr (PTuple [PInt (int (\<Sum>i<length ds. digit_val (ds ! i) * 10 ^ (length ds - Suc i))),
                     PList members])"
    by (simp add: format_response_def foldl_positional)
next
  show "format_response (PList [PBytes (py_ascii n), PList members]) =
        Inr (PTuple [PInt n, PList members])"
    by (simp add: format_response_def py_int_bytes_py_ascii)
qed

theorem sscan_format_response_witness:
  "format_response (PList [PBytes ''407'', PList [PBytes ''a'', PBytes ''b'']]) =
     Inr (PTuple [PInt 407, PList [PBytes ''a'', PBytes ''b'']]) \<and>
   format_response (PList [PBytes ''18446744073709551615'', PList []]) =
     Inr (PTuple [PInt 18446744073709551615, PList []])"
proof -
  have digits: "''407'' \<noteq> [] \<and> (\<forall>c\<in>set ''407''. is_digit c)"
    by (simp add: is_digit_def)
  have range: "(0::int) \<le> 18446744073709551615 \<and> (18446744073709551615::int) \<le> 2 ^ 64 - 1"
    by simp
  have shown: "py_ascii 18446744073709551615 = ''18446744073709551615''"
    by (simp add: py_ascii_def nat_digits.simps digit_char_def)
  have val: "(\<Sum>i<length ''407''. digit_val (''407'' ! i) * 10 ^ (length ''407'' - Suc i)) = 407"
    by (simp add: digit_val_def lessThan_Suc)
  from sscan_format_response [of "''407''" "[PBytes ''a'', PBytes ''b'']" 18446744073709551615]
    sscan_format_response [of "''407''" "[]" 18446744073709551615]
    digits range shown val
  show ?thesis by simp
qed


section \<open>Dispatch\<close>


lemma direct_without_normalizer:
  assumes "\<not> pipeline st"
  shows "scard st key = execute st [''SCARD'', key] None"
    and "sismember st key member = execute st [''SISMEMBER'', key, member] None"
    and "smembers st key = execute st [''SMEMBERS'', key] None"
    and "spop st key count = execute st (spop_command key count) None"
    and "srandmember st key count = execute st (srandmember_command key count) None"
  using assms by (simp_all add: scard_def sismember_def smembers_def spop_def srandmember_def)






text \<open>What a continuation does in the two cases where it does not return.\<close>

lemma on_response_normalizer_raises:
  "normalizer v = Inl err \<Longrightarrow>
   on_response normalizer (Result v) =
     \<lparr>future = Unset, normalized = [v], escaped = Some (Raised err)\<rparr>"
  by (simp add: on_response_def)

lemma on_response_false_exception:
  "on_response normalizer (Exception exc False) =
     \<lparr>future = Unset, normalized = [], escaped = Some (Reraised exc)\<rparr>"
  by (simp add: on_response_def)

section \<open>Operations without a normalizer\<close>

lemma settle_execute:
  "settle (fst (execute st command None)) (Result reply) =
     \<lparr>future = Set_result reply, normalized = [], escaped = None\<rparr>"
  by (simp add: settle_def execute_def raw_reply_def)

text \<open>\<^verbatim>\<open>sismember\<close> and \<^verbatim>\<open>scard\<close> differ in the command vector only: whatever one makes of a
  reply, the other makes of it too.\<close>

lemma sismember_as_scard:
  "fst (sismember st key member) = fst (scard st key') \<and>
   map snd (pipeline_commands (snd (sismember st key member))) =
   map snd (pipeline_commands (snd (scard st key')))"
  by (simp add: sismember_def scard_def pipeline_add_def execute_def Let_def)

text \<open>C3, at the reply 1 in direct mode: \<^verbatim>\<open>scard\<close> resolves to the integer 1, as claimed, and
  so does \<^verbatim>\<open>sismember\<close>, which the claim and the docstring (\<^verbatim>\<open>:rtype: bool\<close>) expect to
  resolve to True. In pipeline mode \<^verbatim>\<open>sismember\<close> registers no normalizer.\<close>

theorem sismember_resolves_to_integer:
  "settle (fst (sismember \<lparr>pipeline = False, pipeline_commands = [],
                           executed = ([] :: (command \<times> unit callback option) list)\<rparr> ''k'' ''a''))
     (Result (PInt 1)) =
     \<lparr>future = Set_result (PInt 1), normalized = [], escaped = None\<rparr> \<and>
   PInt 1 \<noteq> PBool True \<and>
   settle (fst (scard \<lparr>pipeline = False, pipeline_commands = [],
                       executed = ([] :: (command \<times> unit callback option) list)\<rparr> ''k''))
     (Result (PInt 1)) =
     \<lparr>future = Set_result (PInt 1), normalized = [], escaped = None\<rparr> \<and>
   pipeline_commands (snd (sismember \<lparr>pipeline = True, pipeline_commands = [],
                           executed = ([] :: (command \<times> unit callback option) list)\<rparr> ''k'' ''a'')) =
     [([''SISMEMBER'', ''k'', ''a''], None)]"
  by (simp add: sismember_def scard_def settle_def execute_def raw_reply_def pipeline_add_def)

text \<open>C7, as the claim states it: \<^verbatim>\<open>spop\<close> with \<^verbatim>\<open>count=2\<close> would yield a 2-element sequence
  whatever the type of the raw reply, and \<^verbatim>\<open>spop\<close> without a count a single value. The call
  resolves to the raw reply as it is: to a byte string when the reply to a call with
  \<^verbatim>\<open>count=2\<close> is a byte string, to a list when the reply to a call without a count is a
  list.\<close>

theorem spop_shape_counterexample:
  "spop_command ''k'' (Some 2) = [''SPOP'', ''k'', ''2''] \<and>
   future (settle (fst (spop \<lparr>pipeline = False, pipeline_commands = [],
                              executed = ([] :: (command \<times> unit callback option) list)\<rparr>
                         ''k'' (Some 2)))
             (Result (PBytes ''a''))) = Set_result (PBytes ''a'') \<and>
   future (settle (fst (spop \<lparr>pipeline = False, pipeline_commands = [],
                              executed = ([] :: (command \<times> unit callback option) list)\<rparr>
                         ''k'' None))
             (Result (PList [PBytes ''a'', PBytes ''b'']))) = Set_result (PList [PBytes ''a'', PBytes ''b''])"
  by (simp add: spop_def settle_def execute_def raw_reply_def spop_command_def truthy_int_def
        py_ascii_def nat_digits.simps digit_char_def)

text \<open>C7, amended: \<^verbatim>\<open>spop\<close> attaches no normalizer. In direct mode its future resolves to
  the raw reply unchanged, whether or not a count was supplied, so the result is a single
  value when the reply is a bulk string and a 2-element sequence when the reply is a
  2-element array; in pipeline mode it registers its command vector with no normalizer.\<close>

theorem spop_resolves_to_raw_reply:
  "(\<not> pipeline st \<longrightarrow>
      settle (fst (spop st key count)) (Result reply) =
        \<lparr>future = Set_result reply, normalized = [], escaped = None\<rparr>) \<and>
   (pipeline st \<longrightarrow>
      pipeline_commands (snd (spop st key count)) =
        pipeline_commands st @ [(spop_command key count, None)])"
  by (simp add: spop_def settle_execute pipeline_add_def)

theorem spop_resolves_to_raw_reply_witness:
  "settle (fst (spop \<lparr>pipeline = False, pipeline_commands = [],
                      executed = ([] :: (command \<times> unit callback option) list)\<rparr> ''k'' None))
     (Result (PBytes ''a'')) =
     \<lparr>future = Set_result (PBytes ''a''), normalized = [], escaped = None\<rparr> \<and>
   settle (fst (spop \<lparr>pipeline = False, pipeline_commands = [],
                      executed = ([] :: (command \<times> unit callback option) list)\<rparr> ''k'' (Some 2)))
     (Result (PList [PBytes ''a'', PBytes ''b''])) =
     \<lparr>future = Set_result (PList [PBytes ''a'', PBytes ''b'']), normalized = [], escaped = None\<rparr> \<and>
   pipeline_commands (snd (spop \<lparr>pipeline = True, pipeline_commands = [],
                      executed = ([] :: (command \<times> unit callback option) list)\<rparr> ''k'' (Some 2))) =
     [([''SPOP'', ''k'', ''2''], None)]"
proof -
  have two: "spop_command ''k'' (Some 2) = [''SPOP'', ''k'', ''2'']"
    by (simp add: spop_command_def truthy_int_def py_ascii_def nat_digits.simps digit_char_def)
  from spop_resolves_to_raw_reply
      [where st = "\<lparr>pipeline = False, pipeline_commands = [],
                     executed = ([] :: (command \<times> unit callback option) list)\<rparr>"
         and key = "''k''" and count = None and reply = "PBytes ''a''"]
    spop_resolves_to_raw_reply
      [where st = "\<lparr>pipeline = False, pipeline_commands = [],
                     executed = ([] :: (command \<times> unit callback option) list)\<rparr>"
         and key = "''k''" and count = "Some 2" and reply = "PList [PBytes ''a'', PBytes ''b'']"]
    spop_resolves_to_raw_reply
      [where st = "\<lparr>pipeline = True, pipeline_commands = [],
                     executed = ([] :: (command \<times> unit callback option) list)\<rparr>"
         and key = "''k''" and count = "Some 2"]
    two
  show ?thesis by simp
qed


section \<open>Variadic commands without variadic arguments\<close>

text \<open>C8: a variadic set operation called with no member or key builds the command vector of
  the command name and its fixed leading key alone and hands it over as it is, to the
  pipeline accumulator in pipeline mode and to the executor in direct mode. No operation
  has a failing outcome of its own: each returns a placeholder or a future.\<close>

theorem no_variadic_arguments_forwarded:
  "snd (sadd st key []) =
     (if pipeline st
      then st\<lparr>pipeline_commands := pipeline_commands st @ [([''SADD'', key], Some (sadd_eval_response []))]\<rparr>
      else st\<lparr>executed := executed st @ [([''SADD'', key], Some (on_response (sadd_eval_response [])))]\<rparr>) \<and>
   snd (srem st key []) =
     (if pipeline st
      then st\<lparr>pipeline_commands := pipeline_commands st @ [([''SREM'', key], Some (srem_eval_response []))]\<rparr>
      else st\<lparr>executed := executed st @ [([''SREM'', key], Some (on_response (srem_eval_response [])))]\<rparr>) \<and>
   snd (sdiff st []) =
     (if pipeline st
      then st\<lparr>pipeline_commands := pipeline_commands st @ [([''SDIFF''], None)]\<rparr>
      else st\<lparr>executed := executed st @ [([''SDIFF''], None)]\<rparr>) \<and>
   snd (sinter st []) =
     (if pipeline st
      then st\<lparr>pipeline_commands := pipeline_commands st @ [([''SINTER''], None)]\<rparr>
      else st\<lparr>executed := executed st @ [([''SINTER''], None)]\<rparr>) \<and>
   snd (sunion st []) =
     (if pipeline st
      then st\<lparr>pipeline_commands := pipeline_commands st @ [([''SUNION''], None)]\<rparr>
      else st\<lparr>executed := executed st @ [([''SUNION''], None)]\<rparr>) \<and>
   snd (sdiffstore st destination []) =
     (if pipeline st
      then st\<lparr>pipeline_commands := pipeline_commands st @ [([''SDIFFSTORE'', destination], None)]\<rparr>
      else st\<lparr>executed := executed st @ [([''SDIFFSTORE'', destination], None)]\<rparr>) \<and>
   snd (sinterstore st destination []) =
     (if pipeline st
      then st\<lparr>pipeline_commands := pipeline_commands st @ [([''SINTERSTORE'', destination], None)]\<rparr>
      else st\<lparr>executed := executed st @ [([''SINTERSTORE'', destination], None)]\<rparr>) \<and>
   snd (sunionstore st destination []) =
     (if pipeline st
      then st\<lparr>pipeline_commands := pipeline_commands st @ [([''SUNIONSTORE'', destination], None)]\<rparr>
      else st\<lparr>executed := executed st @ [([''SUNIONSTORE'', destination], None)]\<rparr>) \<and>
   fst (sadd st key []) \<in> {Placeholder, Future (on_response (sadd_eval_response []))} \<and>
   fst (srem st key []) \<in> {Placeholder, Future (on_response (srem_eval_response []))} \<and>
   fst (sdiff st []) \<in> {Placeholder, Future raw_reply} \<and>
   fst (sinter st []) \<in> {Placeholder, Future raw_reply} \<and>
   fst (sunion st []) \<in> {Placeholder, Future raw_reply} \<and>
   fst (sdiffstore st destination []) \<in> {Placeholder, Future raw_reply} \<and>
   fst (sinterstore st destination []) \<in> {Placeholder, Future raw_reply} \<and>
   fst (sunionstore st destination []) \<in> {Placeholder, Future raw_reply}"
proof -
  have "snd (sadd st key []) =
     (if pipeline st
      then st\<lparr>pipeline_commands := pipeline_commands st @ [([''SADD'', key], Some (sadd_eval_response []))]\<rparr>
      else st\<lparr>executed := executed st @ [([''SADD'', key], Some (on_response (sadd_eval_response [])))]\<rparr>)"
    and "fst (sadd st key []) \<in> {Placeholder, Future (on_response (sadd_eval_response []))}"
    by (simp_all add: sadd_def pipeline_add_def execute_def Let_def)
  moreover have "snd (srem st key []) =
     (if pipeline st
      then st\<lparr>pipeline_commands := pipeline_commands st @ [([''SREM'', key], Some (srem_eval_response []))]\<rparr>
      else st\<lparr>executed := executed st @ [([''SREM'', key], Some (on_response (srem_eval_response [])))]\<rparr>)"
    and "fst (srem st key []) \<in> {Placeholder, Future (on_response (srem_eval_response []))}"
    by (simp_all add: srem_def pipeline_add_def execute_def Let_def)
  moreover have "snd (sdiff st []) =
     (if pipeline st
      then st\<lparr>pipeline_commands := pipeline_commands st @ [([''SDIFF''], None)]\<rparr>
      else st\<lparr>executed := executed st @ [([''SDIFF''], None)]\<rparr>)"
    and "fst (sdiff st []) \<in> {Placeholder, Future raw_reply}"
    by (simp_all add: sdiff_def pipeline_add_def execute_def Let_def)
  moreover have "snd (sinter st []) =
     (if pipeline st
      then st\<lparr>pipeline_commands := pipeline_commands st @ [([''SINTER''], None)]\<rparr>
      else st\<lparr>executed := executed st @ [([''SINTER''], None)]\<rparr>)"
    and "fst (sinter st []) \<in> {Placeholder, Future raw_reply}"
    by (simp_all add: sinter_def pipeline_add_def execute_def Let_def)
  moreover have "snd (sunion st []) =
     (if pipeline st
      then st\<lparr>pipeline_commands := pipeline_commands st @ [([''SUNION''], None)]\<rparr>
      else st\<lparr>executed := executed st @ [([''SUNION''], None)]\<rparr>)"
    and "fst (sunion st []) \<in> {Placeholder, Future raw_reply}"
    by (simp_all add: sunion_def pipeline_add_def execute_def Let_def)
  moreover have "snd (sdiffstore st destination []) =
     (if pipeline st
      then st\<lparr>pipeline_commands := pipeline_commands st @ [([''SDIFFSTORE'', destination], None)]\<rparr>
      else st\<lparr>executed := executed st @ [([''SDIFFSTORE'', destination], None)]\<rparr>)"
    and "fst (sdiffstore st destination []) \<in> {Placeholder, Future raw_reply}"
    by (simp_all add: sdiffstore_def pipeline_add_def execute_def Let_def)
  moreover have "snd (sinterstore st destination []) =
     (if pipeline st
      then st\<lparr>pipeline_commands := pipeline_commands st @ [([''SINTERSTORE'', destination], None)]\<rparr>
      else st\<lparr>executed := executed st @ [([''SINTERSTORE'', destination], None)]\<rparr>)"
    and "fst (sinterstore st destination []) \<in> {Placeholder, Future raw_reply}"
    by (simp_all add: sinterstore_def pipeline_add_def execute_def Let_def)
  moreover have "snd (sunionstore st destination []) =
     (if pipeline st
      then st\<lparr>pipeline_commands := pipeline_commands st @ [([''SUNIONSTORE'', destination], None)]\<rparr>
      else st\<lparr>executed := executed st @ [([''SUNIONSTORE'', destination], None)]\<rparr>)"
    and "fst (sunionstore st destination []) \<in> {Placeholder, Future raw_reply}"
    by (simp_all add: sunionstore_def pipeline_add_def execute_def Let_def)
  ultimately show ?thesis
    by (intro conjI)
qed

theorem no_variadic_arguments_forwarded_witness:
  "executed (snd (sadd \<lparr>pipeline = False, pipeline_commands = [],
                        executed = ([] :: (command \<times> unit callback option) list)\<rparr> ''k'' [])) =
     [([''SADD'', ''k''], Some (on_response (sadd_eval_response [])))] \<and>
   pipeline_commands (snd (sdiff \<lparr>pipeline = True, pipeline_commands = [],
                        executed = ([] :: (command \<times> unit callback option) list)\<rparr> [])) =
     [([''SDIFF''], None)] \<and>
   executed (snd (sunionstore \<lparr>pipeline = False, pipeline_commands = [],
                        executed = ([] :: (command \<times> unit callback option) list)\<rparr> ''d'' [])) =
     [([''SUNIONSTORE'', ''d''], None)]"
  using no_variadic_arguments_forwarded
      [where st = "\<lparr>pipeline = False, pipeline_commands = [],
                     executed = ([] :: (command \<times> unit callback option) list)\<rparr>"
         and key = "''k''" and destination = "''d''"]
    no_variadic_arguments_forwarded
      [where st = "\<lparr>pipeline = True, pipeline_commands = [],
                     executed = ([] :: (command \<times> unit callback option) list)\<rparr>"
         and key = "''k''" and destination = "''d''"]
  by simp

section \<open>SMOVE\<close>

text \<open>C9: for every source key, destination key and member, \<^verbatim>\<open>smove\<close> makes True of the
  integer reply 1 and False of the integer reply 0: in direct mode its future resolves to
  that boolean, in pipeline mode the normalizer it registers returns it.\<close>

theorem smove_boolean_coded:
  "(\<not> pipeline st \<longrightarrow>
      settle (fst (smove st source destination member)) (Result (PInt 1)) =
        \<lparr>future = Set_result (PBool True), normalized = [PInt 1], escaped = None\<rparr> \<and>
      settle (fst (smove st source destination member)) (Result (PInt 0)) =
        \<lparr>future = Set_result (PBool False), normalized = [PInt 0], escaped = None\<rparr>) \<and>
   (pipeline st \<longrightarrow>
      (\<exists>f. pipeline_commands (snd (smove st source destination member)) =
              pipeline_commands st @ [([''SMOVE'', source, destination, member], Some f)] \<and>
            f (PInt 1) = Inr (PBool True) \<and> f (PInt 0) = Inr (PBool False)))"
  by (simp add: smove_def execute_and_eval_int_resp_def pipeline_add_def settle_def
        on_response_def eval_int_resp_def)

theorem smove_boolean_coded_witness:
  "settle (fst (smove \<lparr>pipeline = False, pipeline_commands = [],
                       executed = ([] :: (command \<times> unit callback option) list)\<rparr> ''s'' ''d'' ''a''))
     (Result (PInt 1)) =
     \<lparr>future = Set_result (PBool True), normalized = [PInt 1], escaped = None\<rparr> \<and>
   settle (fst (smove \<lparr>pipeline = False, pipeline_commands = [],
                       executed = ([] :: (command \<times> unit callback option) list)\<rparr> ''s'' ''d'' ''a''))
     (Result (PInt 0)) =
     \<lparr>future = Set_result (PBool False), normalized = [PInt 0], escaped = None\<rparr> \<and>
   (\<exists>f. pipeline_commands (snd (smove \<lparr>pipeline = True, pipeline_commands = [],
                       executed = ([] :: (command \<times> unit callback option) list)\<rparr> ''s'' ''d'' ''a'')) =
           [([''SMOVE'', ''s'', ''d'', ''a''], Some f)] \<and>
         f (PInt 1) = Inr (PBool True) \<and> f (PInt 0) = Inr (PBool False))"
  using smove_boolean_coded
      [where st = "\<lparr>pipeline = False, pipeline_commands = [],
                     executed = ([] :: (command \<times> unit callback option) list)\<rparr>"
         and source = "''s''" and destination = "''d''" and member = "''a''"]
    smove_boolean_coded
      [where st = "\<lparr>pipeline = True, pipeline_commands = [],
                     executed = ([] :: (command \<times> unit callback option) list)\<rparr>"
         and source = "''s''" and destination = "''d''" and member = "''a''"]
  by simp


end
